theory Spec2Isabelle
  imports Complex_Main
begin

section \<open>The token API of index.js\<close>

text \<open>
  The service of \<^verbatim>\<open>src/index.js\<close> is an Express application with five routes over two
  Mongoose collections and a JSON Web Token gate. Every route handler becomes a function
  from the destructured request fields and the store to a response (and the store after
  the request). What the handlers leave to their libraries is written out:
  \<^item> the truthiness tests of JavaScript (\<^verbatim>\<open>!name\<close>, \<^verbatim>\<open>!price\<close>, \<^verbatim>\<open>!authHeader\<close>);
  \<^item> \<^verbatim>\<open>String.prototype.split\<close> and array indexing, which yields \<^verbatim>\<open>undefined\<close> out of range;
  \<^item> the two collections with the validators and the unique index that the schemas declare;
  \<^item> the token codec of the \<^verbatim>\<open>jsonwebtoken\<close> package.
  The register and product handlers are modelled on request fields of the types that the
  Swagger annotations of the source give them: strings for \<^verbatim>\<open>name\<close>, \<^verbatim>\<open>email\<close>, \<^verbatim>\<open>password\<close>, a
  number for \<^verbatim>\<open>price\<close>. The login handler hands its two fields to the query as the body
  has them, with no check of their type, and what the query matches depends on it: there
  the fields are any JSON value. A field that the body does not carry is \<open>None\<close>
  (\<^verbatim>\<open>undefined\<close>).
\<close>

subsection \<open>JavaScript values\<close>

text \<open>\<^verbatim>\<open>!s\<close> for a value that is a string or \<^verbatim>\<open>undefined\<close>: true for \<^verbatim>\<open>undefined\<close> and for \<^verbatim>\<open>''\<close>.\<close>

definition falsy_string :: "string option \<Rightarrow> bool" where
  "falsy_string v = (case v of None \<Rightarrow> True | Some s \<Rightarrow> s = [])"

text \<open>
  \<^verbatim>\<open>!n\<close> for a value that is a number or \<^verbatim>\<open>undefined\<close>. A number parsed from a JSON body is
  finite or infinite, never NaN, so it is falsy exactly when it is zero. A number is
  modelled by its value as a rational; the handlers only test it against zero and store it.
\<close>

definition falsy_number :: "rat option \<Rightarrow> bool" where
  "falsy_number v = (case v of None \<Rightarrow> True | Some n \<Rightarrow> n = 0)"

text \<open>
  \<^verbatim>\<open>s.split(sep)\<close> for a one-character separator: the pieces between the separators,
  empty pieces included, so the result of splitting the empty string is \<^verbatim>\<open>['']\<close>.
\<close>

fun split :: "char \<Rightarrow> string \<Rightarrow> string list" where
  "split sep [] = [[]]"
| "split sep (c # cs) =
     (if c = sep then [] # split sep cs
      else (case split sep cs of
              [] \<Rightarrow> [[c]]
            | w # ws \<Rightarrow> (c # w) # ws))"

text \<open>\<^verbatim>\<open>xs[i]\<close>: \<^verbatim>\<open>undefined\<close> (here \<open>None\<close>) when the index is out of range.\<close>

definition index :: "'a list \<Rightarrow> nat \<Rightarrow> 'a option" where
  "index xs i = (if i < length xs then Some (xs ! i) else None)"

text \<open>The JSON values that \<^verbatim>\<open>res.json\<close> sends.\<close>

datatype json =
    JNull
  | JBool bool
  | JNumber rat
  | JString string
  | JArray "json list"
  | JObject "(string \<times> json) list"

text \<open>The value of a field of a JSON object, and whether the object has the field.\<close>

fun field :: "string \<Rightarrow> json \<Rightarrow> json option" where
  "field k (JObject kvs) = map_of kvs k"
| "field k _ = None"

definition has_field :: "string \<Rightarrow> json \<Rightarrow> bool" where
  "has_field k j = (field k j \<noteq> None)"

text \<open>
  The truthiness of a JSON value: \<^verbatim>\<open>null\<close>, \<^verbatim>\<open>false\<close>, zero and the empty string are falsy,
  every array and every object is truthy. \<^verbatim>\<open>!v\<close> for a field of a JSON body is true for a
  missing field and for a falsy value.
\<close>

fun truthy :: "json \<Rightarrow> bool" where
  "truthy JNull = False"
| "truthy (JBool b) = b"
| "truthy (JNumber n) = (n \<noteq> 0)"
| "truthy (JString s) = (s \<noteq> [])"
| "truthy (JArray vs) = True"
| "truthy (JObject kvs) = True"

definition falsy :: "json option \<Rightarrow> bool" where
  "falsy v = (case v of None \<Rightarrow> True | Some j \<Rightarrow> \<not> truthy j)"

text \<open>\<^verbatim>\<open>res.status(n).json(v)\<close>.\<close>

record response =
  status :: nat
  body :: json

definition message :: "string \<Rightarrow> json" where
  "message m = JObject [(''message'', JString m)]"

definition respond :: "nat \<Rightarrow> json \<Rightarrow> response" where
  "respond n v = \<lparr>status = n, body = v\<rparr>"

subsection \<open>The collections\<close>

text \<open>
  \<^verbatim>\<open>userSchema\<close> and \<^verbatim>\<open>productSchema\<close>. The identifier and version fields that Mongoose adds
  to every document (\<^verbatim>\<open>_id\<close>, \<^verbatim>\<open>__v\<close>) are left out: no handler reads them, and the
  responses are modelled without them.
\<close>

record user =
  user_name :: string
  user_email :: string
  user_password :: string

record product =
  product_name :: string
  product_price :: rat
  product_addedBy :: string

text \<open>A collection is the list of its documents in insertion order.\<close>

record store =
  users :: "user list"
  products :: "product list"

text \<open>
  What \<^verbatim>\<open>save\<close> can reject with. \<open>ValidationError\<close> is raised by a \<^verbatim>\<open>required: true\<close>
  validator, which refuses the empty string; \<open>DuplicateKey\<close> is the server's error E11000
  for the index that \<^verbatim>\<open>unique: true\<close> declares on \<^verbatim>\<open>email\<close>. A query can reject with
  \<open>CastError\<close>, for a filter value that cannot be cast to the type of its field. Faults of
  the connection are outside the model: the store always answers.
\<close>

datatype store_error = ValidationError | DuplicateKey | CastError

text \<open>\<^verbatim>\<open>User.findOne({ email })\<close>: the first document with that email, or \<^verbatim>\<open>null\<close>.\<close>

definition User_findOne_email :: "string \<Rightarrow> user list \<Rightarrow> user option" where
  "User_findOne_email email us = find (\<lambda>u. user_email u = email) us"

text \<open>
  What a value in a query filter asks of a string field. A string asks for a field equal
  to it. An object with the one key \<^verbatim>\<open>$ne\<close> and a string is the query operator: it asks for a
  field different from the string. What the store makes of every other value (a number or
  a boolean, an array, another operator, a value that the cast refuses) is the parameter
  \<open>other\<close> of the model: the condition on the field, or \<open>None\<close> when the store rejects the
  filter with an error.
\<close>

fun condition :: "(json \<Rightarrow> (string \<Rightarrow> bool) option) \<Rightarrow> json \<Rightarrow> (string \<Rightarrow> bool) option" where
  "condition other (JString s) = Some (\<lambda>t. t = s)"
| "condition other (JObject [(k, JString x)]) =
     (if k = ''$ne'' then Some (\<lambda>t. t \<noteq> x) else other (JObject [(k, JString x)]))"
| "condition other v = other v"

text \<open>
  \<^verbatim>\<open>User.findOne({ email, password })\<close> with the two values as the handler passes them: one
  query, the first document that meets the condition of both, \<^verbatim>\<open>null\<close> when there is none.
\<close>

definition User_findOne_email_password ::
  "(json \<Rightarrow> (string \<Rightarrow> bool) option) \<Rightarrow> json \<Rightarrow> json \<Rightarrow> user list \<Rightarrow> store_error + user option" where
  "User_findOne_email_password other email password us =
     (case (condition other email, condition other password) of
        (Some on_email, Some on_password) \<Rightarrow>
          Inr (find (\<lambda>u. on_email (user_email u) \<and> on_password (user_password u)) us)
      | _ \<Rightarrow> Inl CastError)"

text \<open>A store that rejects every filter value that the model does not spell out.\<close>

definition refuse_other :: "json \<Rightarrow> (string \<Rightarrow> bool) option" where
  "refuse_other v = None"

text \<open>\<^verbatim>\<open>newUser.save()\<close>: the validators run first, then the insert meets the unique index.\<close>

definition User_save :: "user \<Rightarrow> user list \<Rightarrow> store_error + user list" where
  "User_save u us =
     (if user_name u = [] \<or> user_email u = [] \<or> user_password u = [] then Inl ValidationError
      else if list_ex (\<lambda>v. user_email v = user_email u) us then Inl DuplicateKey
      else Inr (us @ [u]))"

text \<open>\<^verbatim>\<open>newProduct.save()\<close>: the product schema has validators and no unique index.\<close>

definition Product_save :: "product \<Rightarrow> product list \<Rightarrow> store_error + product list" where
  "Product_save p ps =
     (if product_name p = [] \<or> product_addedBy p = [] then Inl ValidationError
      else Inr (ps @ [p]))"

text \<open>The JSON of a document, and the projection \<^verbatim>\<open>.select('-field')\<close> that drops one field.\<close>

definition user_json :: "user \<Rightarrow> json" where
  "user_json u =
     JObject [(''name'', JString (user_name u)),
              (''email'', JString (user_email u)),
              (''password'', JString (user_password u))]"

definition product_json :: "product \<Rightarrow> json" where
  "product_json p =
     JObject [(''name'', JString (product_name p)),
              (''price'', JNumber (product_price p)),
              (''addedBy'', JString (product_addedBy p))]"

fun select_without :: "string \<Rightarrow> json \<Rightarrow> json" where
  "select_without k (JObject kvs) = JObject (filter (\<lambda>kv. fst kv \<noteq> k) kvs)"
| "select_without k j = j"

subsection \<open>The token codec\<close>

text \<open>
  Modelled from the spec: the Token Codec of section 4.1, which the source takes from the
  \<^verbatim>\<open>jsonwebtoken\<close> package (\<^verbatim>\<open>jwt.sign\<close>, \<^verbatim>\<open>jwt.verify\<close>); the package is not part of the
  repository. A token carries its claims and a signature. The signature is symbolic: a
  token signed with a key verifies under that key and under no other. Times are seconds
  of the service's clock.
\<close>

record jwt_payload =
  jwt_email :: string
  jwt_iat :: nat
  jwt_exp :: nat

datatype jwt = Signed jwt_payload string

datatype jwt_error = JsonWebTokenError | TokenExpiredError

text \<open>
  The compact serialisation of a token is a parameter of the model: \<open>enc\<close> writes a token
  as the opaque string that the client holds, \<open>dec\<close> reads a string back and is \<open>None\<close> on
  a string that is not well-formed. What the codec needs of them is that reading undoes
  writing.
\<close>

definition codec :: "(jwt \<Rightarrow> string) \<Rightarrow> (string \<Rightarrow> jwt option) \<Rightarrow> bool" where
  "codec enc dec = (\<forall>t. dec (enc t) = Some t)"

text \<open>
  Modelled from the spec: Issue of section 4.1, which the source calls as
  \<^verbatim>\<open>jwt.sign({ email }, key, { expiresIn })\<close>; here at clock time \<open>now\<close>, with the lifetime
  in seconds. The expiry is the issuance time plus the lifetime.
\<close>

definition jwt_sign :: "(jwt \<Rightarrow> string) \<Rightarrow> string \<Rightarrow> string \<Rightarrow> nat \<Rightarrow> nat \<Rightarrow> string" where
  "jwt_sign enc email key expiresIn now =
     enc (Signed \<lparr>jwt_email = email, jwt_iat = now, jwt_exp = now + expiresIn\<rparr> key)"

text \<open>
  Modelled from the spec: Verify of section 4.1, which the source calls as
  \<^verbatim>\<open>jwt.verify(token, key, callback)\<close>; here at clock time \<open>now\<close>. The checks in the
  order of the spec: the string is there and well-formed, the signature is one of the
  key, the current time is before the expiry. The result is what the callback receives:
  the error (\<open>Inl\<close>) or the claims (\<open>Inr\<close>).
\<close>

definition jwt_verify ::
  "(string \<Rightarrow> jwt option) \<Rightarrow> string option \<Rightarrow> string \<Rightarrow> nat \<Rightarrow> jwt_error + jwt_payload" where
  "jwt_verify dec token key now =
     (case token of
        None \<Rightarrow> Inl JsonWebTokenError
      | Some s \<Rightarrow>
          (case dec s of
             None \<Rightarrow> Inl JsonWebTokenError
           | Some (Signed payload k) \<Rightarrow>
               if k \<noteq> key then Inl JsonWebTokenError
               else if jwt_exp payload \<le> now then Inl TokenExpiredError
               else Inr payload))"

subsection \<open>Configuration and the access guard\<close>

text \<open>\<^verbatim>\<open>process.env.JWT_SECRET || 'your_secret_key'\<close>, from the environment variable.\<close>

definition SECRET_KEY :: "string option \<Rightarrow> string" where
  "SECRET_KEY JWT_SECRET =
     (case JWT_SECRET of
        None \<Rightarrow> ''your_secret_key''
      | Some s \<Rightarrow> if s = [] then ''your_secret_key'' else s)"

text \<open>The lifetime \<^verbatim>\<open>'1h'\<close> that the login handler passes, in seconds.\<close>

definition one_hour :: nat where
  "one_hour = 3600"

text \<open>
  \<^verbatim>\<open>authenticateToken\<close>. The header is \<open>None\<close> when the request has no \<^verbatim>\<open>Authorization\<close>
  header. The result is the terminal response of a rejection (\<open>Inl\<close>), or the verified
  claims that the middleware stores in \<^verbatim>\<open>req.user\<close> before it calls \<^verbatim>\<open>next()\<close> (\<open>Inr\<close>).
\<close>

definition authenticateToken ::
  "(string \<Rightarrow> jwt option) \<Rightarrow> string option \<Rightarrow> nat \<Rightarrow> string option \<Rightarrow> response + jwt_payload" where
  "authenticateToken dec JWT_SECRET now authHeader =
     (case authHeader of
        None \<Rightarrow> Inl (respond 401 (message ''Token required''))
      | Some h \<Rightarrow>
          if h = [] then Inl (respond 401 (message ''Token required''))
          else
            (case jwt_verify dec (index (split (CHR '' '') h) 1) (SECRET_KEY JWT_SECRET) now of
               Inl err \<Rightarrow> Inl (respond 403 (message ''Invalid token''))
             | Inr user \<Rightarrow> Inr user))"

text \<open>
  A protected route, \<^verbatim>\<open>app.post(path, authenticateToken, handler)\<close>: the handler runs only
  when the middleware calls \<^verbatim>\<open>next()\<close>, and it receives the claims of \<^verbatim>\<open>req.user\<close>.
\<close>

definition protected ::
  "(string \<Rightarrow> jwt option) \<Rightarrow> string option \<Rightarrow> nat \<Rightarrow>
   (jwt_payload \<Rightarrow> store \<Rightarrow> response \<times> store) \<Rightarrow> string option \<Rightarrow> store \<Rightarrow> response \<times> store" where
  "protected dec JWT_SECRET now handler authHeader db =
     (case authenticateToken dec JWT_SECRET now authHeader of
        Inl rejection \<Rightarrow> (rejection, db)
      | Inr user \<Rightarrow> handler user db)"

subsection \<open>The route handlers\<close>

text \<open>
  \<^verbatim>\<open>POST /register\<close>. The handler awaits the store twice, and other requests run between
  the two: \<open>db\<close> is the store that \<^verbatim>\<open>User.findOne\<close> reads and \<open>db'\<close> the store that
  \<^verbatim>\<open>newUser.save()\<close> meets. The result is the response and the store after the request.
\<close>

definition post_register_interleaved ::
  "string option \<Rightarrow> string option \<Rightarrow> string option \<Rightarrow> store \<Rightarrow> store \<Rightarrow> response \<times> store" where
  "post_register_interleaved name email password db db' =
     (case (name, email, password) of
        (Some n, Some e, Some p) \<Rightarrow>
          if n = [] \<or> e = [] \<or> p = []
          then (respond 400 (message ''Name, email, and password are required''), db)
          else
            (case User_findOne_email e (users db) of
               Some userExists \<Rightarrow> (respond 400 (message ''User already exists''), db)
             | None \<Rightarrow>
                 (case User_save \<lparr>user_name = n, user_email = e, user_password = p\<rparr> (users db') of
                    Inl err \<Rightarrow> (respond 500 (message ''Internal server error''), db')
                  | Inr us \<Rightarrow>
                      (respond 201 (message ''User registered successfully''), db'\<lparr>users := us\<rparr>)))
      | _ \<Rightarrow> (respond 400 (message ''Name, email, and password are required''), db))"

text \<open>The handler when no other request touches the store while it runs.\<close>

definition post_register ::
  "string option \<Rightarrow> string option \<Rightarrow> string option \<Rightarrow> store \<Rightarrow> response \<times> store" where
  "post_register name email password db = post_register_interleaved name email password db db"

text \<open>
  \<^verbatim>\<open>POST /login\<close> at clock time \<open>now\<close>, on a body whose two fields are any JSON value. The
  handler tests the fields for truthiness only and passes them to the query. It does not
  write to the store. Its catch block answers a query that the store rejects.
\<close>

definition post_login ::
  "(jwt \<Rightarrow> string) \<Rightarrow> (json \<Rightarrow> (string \<Rightarrow> bool) option) \<Rightarrow> string option \<Rightarrow> nat \<Rightarrow>
   json option \<Rightarrow> json option \<Rightarrow> store \<Rightarrow> response" where
  "post_login enc other JWT_SECRET now email password db =
     (case (email, password) of
        (Some e, Some p) \<Rightarrow>
          if \<not> truthy e \<or> \<not> truthy p
          then respond 400 (message ''Email and password are required'')
          else
            (case User_findOne_email_password other e p (users db) of
               Inl err \<Rightarrow> respond 500 (message ''Internal server error'')
             | Inr None \<Rightarrow> respond 401 (message ''Invalid email or password'')
             | Inr (Some user) \<Rightarrow>
                 respond 200
                   (JObject [(''token'',
                      JString (jwt_sign enc (user_email user) (SECRET_KEY JWT_SECRET) one_hour now))]))
      | _ \<Rightarrow> respond 400 (message ''Email and password are required''))"

text \<open>\<^verbatim>\<open>POST /product\<close>, the handler behind the guard.\<close>

definition post_product ::
  "string option \<Rightarrow> rat option \<Rightarrow> jwt_payload \<Rightarrow> store \<Rightarrow> response \<times> store" where
  "post_product name price user db =
     (case (name, price) of
        (Some n, Some pr) \<Rightarrow>
          if n = [] \<or> pr = 0
          then (respond 400 (message ''Product name and price are required''), db)
          else
            (let newProduct =
               \<lparr>product_name = n, product_price = pr, product_addedBy = jwt_email user\<rparr>
             in case Product_save newProduct (products db) of
                  Inl err \<Rightarrow> (respond 500 (message ''Internal server error''), db)
                | Inr ps \<Rightarrow>
                    (respond 201
                       (JObject [(''message'', JString ''Product added successfully''),
                                 (''product'', product_json newProduct)]),
                     db\<lparr>products := ps\<rparr>))
      | _ \<Rightarrow> (respond 400 (message ''Product name and price are required''), db))"

text \<open>
  \<^verbatim>\<open>GET /products\<close> and \<^verbatim>\<open>GET /users\<close>, the handlers behind the guard. Their catch blocks
  answer a fault of the connection, which the model leaves out.
\<close>

definition get_products :: "jwt_payload \<Rightarrow> store \<Rightarrow> response \<times> store" where
  "get_products user db = (respond 200 (JArray (map product_json (products db))), db)"

definition get_users :: "jwt_payload \<Rightarrow> store \<Rightarrow> response \<times> store" where
  "get_users user db =
     (respond 200 (JArray (map (select_without ''password'' \<circ> user_json) (users db))), db)"

subsection \<open>A serialisation to run the model on\<close>

text \<open>
  One concrete pair of \<open>enc\<close> and \<open>dec\<close>, used where the model is run on concrete
  requests. A number is written in unary and closed by a dot, a string is written as its
  length and then its characters; a token is its issuance time, its expiry, its email and
  the key of its signature, in this order.
\<close>

definition enc_nat :: "nat \<Rightarrow> string" where
  "enc_nat n = replicate n (CHR ''1'') @ ''.''"

definition enc_string :: "string \<Rightarrow> string" where
  "enc_string s = enc_nat (length s) @ s"

fun dec_nat :: "string \<Rightarrow> (nat \<times> string) option" where
  "dec_nat [] = None"
| "dec_nat (c # cs) =
     (if c = CHR ''.'' then Some (0, cs)
      else if c = CHR ''1'' then map_option (\<lambda>(n, r). (Suc n, r)) (dec_nat cs)
      else None)"

definition dec_string :: "string \<Rightarrow> (string \<times> string) option" where
  "dec_string s =
     (case dec_nat s of
        None \<Rightarrow> None
      | Some (n, r) \<Rightarrow> if n \<le> length r then Some (take n r, drop n r) else None)"

definition example_enc :: "jwt \<Rightarrow> string" where
  "example_enc t =
     (case t of Signed payload k \<Rightarrow>
        enc_nat (jwt_iat payload) @ enc_nat (jwt_exp payload) @
        enc_string (jwt_email payload) @ enc_string k)"

definition example_dec :: "string \<Rightarrow> jwt option" where
  "example_dec s =
     (case dec_nat s of
        None \<Rightarrow> None
      | Some (i, r1) \<Rightarrow>
          (case dec_nat r1 of
             None \<Rightarrow> None
           | Some (x, r2) \<Rightarrow>
               (case dec_string r2 of
                  None \<Rightarrow> None
                | Some (e, r3) \<Rightarrow>
                    (case dec_string r3 of
                       None \<Rightarrow> None
                     | Some (k, r4) \<Rightarrow>
                         if r4 = [] then Some (Signed \<lparr>jwt_email = e, jwt_iat = i, jwt_exp = x\<rparr> k)
                         else None))))"

section \<open>Properties\<close>

subsection \<open>The example serialisation is a codec\<close>

lemma dec_nat_enc_nat: "dec_nat (enc_nat n @ r) = Some (n, r)"
  by (induction n) (simp_all add: enc_nat_def)

lemma dec_string_enc_string: "dec_string (enc_string s @ r) = Some (s, r)"
  by (simp add: dec_string_def enc_string_def dec_nat_enc_nat)

lemma dec_string_enc_string_end: "dec_string (enc_string s) = Some (s, [])"
  using dec_string_enc_string [of s "[]"] by simp

lemma example_codec: "codec example_enc example_dec"
  unfolding codec_def
proof
  fix t
  obtain payload k where t: "t = Signed payload k" by (cases t)
  show "example_dec (example_enc t) = Some t"
    by (simp add: t example_enc_def example_dec_def dec_nat_enc_nat
        dec_string_enc_string dec_string_enc_string_end)
qed

subsection \<open>Responses and string splitting\<close>

lemma respond_eq [simp]: "respond n v = respond m w \<longleftrightarrow> n = m \<and> v = w"
  by (auto simp: respond_def)

lemma status_respond [simp]: "status (respond n v) = n"
  by (simp add: respond_def)

lemma body_respond [simp]: "body (respond n v) = v"
  by (simp add: respond_def)

lemma message_eq [simp]: "message a = message b \<longleftrightarrow> a = b"
  by (simp add: message_def)

lemma split_no_sep: "sep \<notin> set w \<Longrightarrow> split sep w = [w]"
  by (induction w) auto

lemma split_first: "sep \<notin> set w \<Longrightarrow> split sep (w @ sep # r) = w # split sep r"
  by (induction w) auto

text \<open>The second piece of a header of the form \<^verbatim>\<open>scheme token\<close> is the token.\<close>

lemma token_of_scheme:
  "CHR '' '' \<notin> set scheme \<Longrightarrow> CHR '' '' \<notin> set tok \<Longrightarrow>
   index (split (CHR '' '') (scheme @ CHR '' '' # tok)) 1 = Some tok"
  by (simp add: split_first split_no_sep index_def)

subsection \<open>The queries\<close>

lemma findOne_email_None:
  "User_findOne_email e us = None \<longleftrightarrow> (\<forall>u\<in>set us. user_email u \<noteq> e)"
  by (auto simp: User_findOne_email_def find_None_iff)

text \<open>On two strings the login query is the lookup of a record equal in both fields.\<close>

lemma findOne_email_password_strings:
  "User_findOne_email_password other (JString e) (JString p) us =
     Inr (find (\<lambda>u. user_email u = e \<and> user_password u = p) us)"
  by (simp add: User_findOne_email_password_def)

text \<open>A save meets the unique index exactly when a stored document has the email.\<close>

lemma User_save_duplicate:
  assumes "n \<noteq> []" "e \<noteq> []" "p \<noteq> []" "u \<in> set us" "user_email u = e"
  shows "User_save \<lparr>user_name = n, user_email = e, user_password = p\<rparr> us = Inl DuplicateKey"
proof -
  have "list_ex (\<lambda>v. user_email v = e) us"
    using assms(4,5) by (auto simp: list_ex_iff)
  with assms(1-3) show ?thesis
    by (simp add: User_save_def)
qed

lemma User_save_fresh:
  assumes "n \<noteq> []" "e \<noteq> []" "p \<noteq> []" "\<forall>u\<in>set us. user_email u \<noteq> e"
  shows "User_save \<lparr>user_name = n, user_email = e, user_password = p\<rparr> us =
           Inr (us @ [\<lparr>user_name = n, user_email = e, user_password = p\<rparr>])"
proof -
  have "\<not> list_ex (\<lambda>v. user_email v = e) us"
    using assms(4) by (simp add: list_ex_iff)
  with assms(1-3) show ?thesis
    by (simp add: User_save_def)
qed

subsection \<open>The presence checks are the truthiness tests\<close>

lemma post_register_falsy:
  "falsy_string name \<or> falsy_string email \<or> falsy_string password \<Longrightarrow>
   post_register_interleaved name email password db db' =
     (respond 400 (message ''Name, email, and password are required''), db)"
  by (auto simp: post_register_interleaved_def falsy_string_def split: option.splits)

lemma post_login_falsy:
  "falsy email \<or> falsy password \<Longrightarrow>
   post_login enc other S now email password db =
     respond 400 (message ''Email and password are required'')"
  by (auto simp: post_login_def falsy_def split: option.splits)

lemma post_product_falsy:
  "falsy_string name \<or> falsy_number price \<Longrightarrow>
   post_product name price user db =
     (respond 400 (message ''Product name and price are required''), db)"
  by (auto simp: post_product_def falsy_string_def falsy_number_def split: option.splits)

subsection \<open>Register\<close>

lemma post_register_fresh:
  assumes "n \<noteq> []" "e \<noteq> []" "p \<noteq> []" "\<forall>u\<in>set (users db). user_email u \<noteq> e"
  shows "post_register (Some n) (Some e) (Some p) db =
           (respond 201 (message ''User registered successfully''),
            db\<lparr>users := users db @ [\<lparr>user_name = n, user_email = e, user_password = p\<rparr>]\<rparr>)"
proof -
  have "User_findOne_email e (users db) = None"
    using assms(4) by (simp add: findOne_email_None)
  with assms(1-3) User_save_fresh [OF assms] show ?thesis
    by (simp add: post_register_def post_register_interleaved_def)
qed

lemma post_register_existing:
  assumes "n \<noteq> []" "e \<noteq> []" "p \<noteq> []" "u \<in> set (users db)" "user_email u = e"
  shows "post_register_interleaved (Some n) (Some e) (Some p) db db' =
           (respond 400 (message ''User already exists''), db)"
proof -
  obtain v where "User_findOne_email e (users db) = Some v"
    using assms(4,5) findOne_email_None [of e "users db"]
    by (cases "User_findOne_email e (users db)") auto
  with assms(1-3) show ?thesis
    by (simp add: post_register_interleaved_def)
qed

text \<open>What a 201 of the handler tells about the request and the store.\<close>

lemma post_register_201:
  assumes "post_register name email password db = (r, db')" "status r = 201"
  obtains n e p where "name = Some n" "email = Some e" "password = Some p"
    "n \<noteq> []" "e \<noteq> []" "p \<noteq> []"
    "User_findOne_email e (users db) = None"
    "db' = db\<lparr>users := users db @ [\<lparr>user_name = n, user_email = e, user_password = p\<rparr>]\<rparr>"
proof -
  note defs = post_register_def post_register_interleaved_def
  obtain n where n: "name = Some n"
    using assms by (cases name) (auto simp: defs)
  obtain e where e: "email = Some e"
    using assms n by (cases email) (auto simp: defs)
  obtain p where p: "password = Some p"
    using assms n e by (cases password) (auto simp: defs)
  have ne: "n \<noteq> []" "e \<noteq> []" "p \<noteq> []"
    using assms n e p by (auto simp: defs)
  have f: "User_findOne_email e (users db) = None"
    using assms n e p ne by (cases "User_findOne_email e (users db)") (auto simp: defs)
  have "db' = db\<lparr>users := users db @ [\<lparr>user_name = n, user_email = e, user_password = p\<rparr>]\<rparr>"
    using assms n e p ne f
    by (cases "list_ex (\<lambda>v. user_email v = e) (users db)") (auto simp: defs User_save_def)
  with n e p ne f show ?thesis by (rule that)
qed

subsection \<open>Login and the codec\<close>

lemma post_login_found:
  assumes "e \<noteq> []" "p \<noteq> []" "u \<in> set (users db)" "user_email u = e" "user_password u = p"
  shows "post_login enc other S now (Some (JString e)) (Some (JString p)) db =
           respond 200 (JObject [(''token'', JString (jwt_sign enc e (SECRET_KEY S) one_hour now))])"
proof -
  obtain v where v: "find (\<lambda>u. user_email u = e \<and> user_password u = p) (users db) = Some v"
    using assms(3-5) by (cases "find (\<lambda>u. user_email u = e \<and> user_password u = p) (users db)")
      (auto simp: find_None_iff)
  then have "user_email v = e"
    by (auto simp: find_Some_iff)
  with v assms(1,2) show ?thesis
    by (simp add: post_login_def findOne_email_password_strings)
qed

lemma post_login_not_found:
  assumes "e \<noteq> []" "p \<noteq> []"
    and "\<forall>u\<in>set (users db). \<not> (user_email u = e \<and> user_password u = p)"
  shows "post_login enc other S now (Some (JString e)) (Some (JString p)) db =
           respond 401 (message ''Invalid email or password'')"
proof -
  have "find (\<lambda>u. user_email u = e \<and> user_password u = p) (users db) = None"
    using assms(3) by (simp add: find_None_iff)
  with assms(1,2) show ?thesis
    by (simp add: post_login_def findOne_email_password_strings)
qed

text \<open>A token that the login handler returned is one that it signed.\<close>

lemma post_login_token:
  assumes "post_login enc other S now email password db =
             respond 200 (JObject [(''token'', JString tok)])"
  obtains e where "tok = jwt_sign enc e (SECRET_KEY S) one_hour now"
proof -
  obtain v where v: "email = Some v"
    using assms by (cases email) (auto simp: post_login_def)
  obtain w where w: "password = Some w"
    using assms v by (cases password) (auto simp: post_login_def)
  have t: "truthy v" "truthy w"
    using assms v w by (auto simp: post_login_def split: if_splits)
  obtain u where "User_findOne_email_password other v w (users db) = Inr (Some u)"
    using assms v w t
    by (cases "User_findOne_email_password other v w (users db)")
      (auto simp: post_login_def message_def split: option.splits)
  with assms v w t have "tok = jwt_sign enc (user_email u) (SECRET_KEY S) one_hour now"
    by (simp add: post_login_def)
  then show ?thesis
    by (rule that)
qed

text \<open>
  A login under a stored email that is not answered 200 is answered as the login under an
  email that no record has, for every value of the password field.
\<close>

lemma post_login_failure_same:
  assumes "e1 \<noteq> []" "e2 \<noteq> []"
    and "\<forall>v\<in>set (users db). user_email v \<noteq> e2"
    and "status (post_login enc other S now (Some (JString e1)) pw db) \<noteq> 200"
  shows "post_login enc other S now (Some (JString e1)) pw db =
         post_login enc other S now (Some (JString e2)) pw db"
proof (cases "falsy pw")
  case True
  then show ?thesis
    by (simp add: post_login_falsy)
next
  case False
  then obtain w where w: "pw = Some w" "truthy w"
    by (auto simp: falsy_def split: option.splits)
  show ?thesis
  proof (cases "condition other w")
    case None
    with w assms(1,2) show ?thesis
      by (simp add: post_login_def User_findOne_email_password_def)
  next
    case (Some c)
    have none2: "find (\<lambda>u. user_email u = e2 \<and> c (user_password u)) (users db) = None"
      using assms(3) by (auto simp: find_None_iff)
    have none1: "find (\<lambda>u. user_email u = e1 \<and> c (user_password u)) (users db) = None"
      using assms(4) w assms(1) Some
      by (cases "find (\<lambda>u. user_email u = e1 \<and> c (user_password u)) (users db)")
        (simp_all add: post_login_def User_findOne_email_password_def)
    from none1 none2 w assms(1,2) Some show ?thesis
      by (simp add: post_login_def User_findOne_email_password_def)
  qed
qed

lemma jwt_verify_sign:
  assumes "codec enc dec"
  shows "jwt_verify dec (Some (jwt_sign enc e key life now)) key now' =
           (if now + life \<le> now' then Inl TokenExpiredError
            else Inr \<lparr>jwt_email = e, jwt_iat = now, jwt_exp = now + life\<rparr>)"
  using assms by (simp add: jwt_verify_def jwt_sign_def codec_def)

subsection \<open>The access guard\<close>

lemma authenticateToken_missing:
  "falsy_string authHeader \<Longrightarrow>
   authenticateToken dec S now authHeader = Inl (respond 401 (message ''Token required''))"
  by (auto simp: authenticateToken_def falsy_string_def split: option.splits)

lemma authenticateToken_present:
  "authHeader = Some h \<Longrightarrow> h \<noteq> [] \<Longrightarrow>
   authenticateToken dec S now authHeader =
     (case jwt_verify dec (index (split (CHR '' '') h) 1) (SECRET_KEY S) now of
        Inl err \<Rightarrow> Inl (respond 403 (message ''Invalid token''))
      | Inr user \<Rightarrow> Inr user)"
  by (simp add: authenticateToken_def)

subsection \<open>The projection of the user list\<close>

lemma select_without_user_json:
  "select_without ''password'' (user_json u) =
     JObject [(''name'', JString (user_name u)), (''email'', JString (user_email u))]"
  by (simp add: user_json_def)

lemma get_users_rows:
  "map (select_without ''password'' \<circ> user_json) us =
     map2 (\<lambda>n e. JObject [(''name'', JString n), (''email'', JString e)])
       (map user_name us) (map user_email us)"
  by (induction us) (simp_all add: select_without_user_json)

lemma get_users_row:
  assumes "i < length us"
  shows "field ''name'' (map (select_without ''password'' \<circ> user_json) us ! i) =
           Some (JString (user_name (us ! i)))"
    and "field ''email'' (map (select_without ''password'' \<circ> user_json) us ! i) =
           Some (JString (user_email (us ! i)))"
    and "\<not> has_field ''password'' (map (select_without ''password'' \<circ> user_json) us ! i)"
  using assms by (simp_all add: select_without_user_json has_field_def)

section \<open>The claims\<close>

subsection \<open>Register against a concurrent duplicate\<close>

text \<open>
  Claim C1, as the code has it. The pre-check of a register request finds no record
  under the email, and by the time of the insert another request has stored one: the
  insert is refused by the unique index, the handler's catch block answers, and the
  response is the generic 500 \<^verbatim>\<open>Internal server error\<close>. The request adds no record to
  the store it met.
\<close>

theorem register_concurrent_duplicate_is_500:
  assumes "n \<noteq> []" "e \<noteq> []" "p \<noteq> []"
    and "User_findOne_email e (users db) = None"
    and "u \<in> set (users db')" "user_email u = e"
  shows "User_save \<lparr>user_name = n, user_email = e, user_password = p\<rparr> (users db') =
           Inl DuplicateKey \<and>
         post_register_interleaved (Some n) (Some e) (Some p) db db' =
           (respond 500 (message ''Internal server error''), db')"
proof -
  have "User_save \<lparr>user_name = n, user_email = e, user_password = p\<rparr> (users db') =
      Inl DuplicateKey"
    using assms(1-3,5,6) by (rule User_save_duplicate)
  with assms(1-4) show ?thesis
    by (simp add: post_register_interleaved_def)
qed

theorem register_concurrent_duplicate_is_500_witness:
  "User_save \<lparr>user_name = ''Bob'', user_email = ''a@x.com'', user_password = ''pw2''\<rparr>
     (users \<lparr>users = [\<lparr>user_name = ''Ann'', user_email = ''a@x.com'', user_password = ''pw1''\<rparr>],
             products = []\<rparr>) = Inl DuplicateKey \<and>
   post_register_interleaved (Some ''Bob'') (Some ''a@x.com'') (Some ''pw2'')
     \<lparr>users = [], products = []\<rparr>
     \<lparr>users = [\<lparr>user_name = ''Ann'', user_email = ''a@x.com'', user_password = ''pw1''\<rparr>],
      products = []\<rparr> =
   (respond 500 (message ''Internal server error''),
    \<lparr>users = [\<lparr>user_name = ''Ann'', user_email = ''a@x.com'', user_password = ''pw1''\<rparr>],
     products = []\<rparr>)"
proof (rule register_concurrent_duplicate_is_500)
  show "''Bob'' \<noteq> []" "''a@x.com'' \<noteq> []" "''pw2'' \<noteq> []"
    by simp_all
  show "User_findOne_email ''a@x.com'' (users \<lparr>users = [], products = []\<rparr>) = None"
    by (simp add: User_findOne_email_def)
  show "\<lparr>user_name = ''Ann'', user_email = ''a@x.com'', user_password = ''pw1''\<rparr>
      \<in> set (users \<lparr>users = [\<lparr>user_name = ''Ann'', user_email = ''a@x.com'',
                                 user_password = ''pw1''\<rparr>], products = []\<rparr>)"
    by simp
  show "user_email \<lparr>user_name = ''Ann'', user_email = ''a@x.com'', user_password = ''pw1''\<rparr> =
      ''a@x.com''"
    by simp
qed

text \<open>
  Claim C1, as the spec has it, fails: Ann's record arrives between Bob's pre-check and
  Bob's insert, the pre-check found nothing, the insert is refused as a duplicate, and
  the response is the 500 and not the 400 \<^verbatim>\<open>User already exists\<close>.
\<close>

theorem register_concurrent_duplicate_not_400:
  "User_findOne_email ''a@x.com'' (users \<lparr>users = [], products = []\<rparr>) = None \<and>
   User_save \<lparr>user_name = ''Bob'', user_email = ''a@x.com'', user_password = ''pw2''\<rparr>
     (users \<lparr>users = [\<lparr>user_name = ''Ann'', user_email = ''a@x.com'', user_password = ''pw1''\<rparr>],
             products = []\<rparr>) = Inl DuplicateKey \<and>
   status (fst (post_register_interleaved (Some ''Bob'') (Some ''a@x.com'') (Some ''pw2'')
     \<lparr>users = [], products = []\<rparr>
     \<lparr>users = [\<lparr>user_name = ''Ann'', user_email = ''a@x.com'', user_password = ''pw1''\<rparr>],
      products = []\<rparr>)) = 500 \<and>
   fst (post_register_interleaved (Some ''Bob'') (Some ''a@x.com'') (Some ''pw2'')
     \<lparr>users = [], products = []\<rparr>
     \<lparr>users = [\<lparr>user_name = ''Ann'', user_email = ''a@x.com'', user_password = ''pw1''\<rparr>],
      products = []\<rparr>) \<noteq> respond 400 (message ''User already exists'')"
  by (simp add: post_register_interleaved_def User_findOne_email_def User_save_def)

subsection \<open>From registration to a verified identity\<close>

text \<open>
  Claim C2. When the register handler answers 201 to a request, a login with the email
  and the password of that request on the store it left succeeds, and verifying the
  returned token at any time before its expiry yields claims with the same email. The
  serialisation of tokens is any codec.
\<close>

theorem register_login_verify_roundtrip:
  assumes "codec enc dec"
    and "post_register name email password db = (r, db')" and "status r = 201"
    and "now' < now + one_hour"
  shows "\<exists>e p tok. email = Some e \<and> password = Some p \<and>
           post_login enc other S now (Some (JString e)) (Some (JString p)) db' =
             respond 200 (JObject [(''token'', JString tok)]) \<and>
           jwt_verify dec (Some tok) (SECRET_KEY S) now' =
             Inr \<lparr>jwt_email = e, jwt_iat = now, jwt_exp = now + one_hour\<rparr>"
proof -
  from assms(2,3) obtain n e p where *: "name = Some n" "email = Some e" "password = Some p"
    "n \<noteq> []" "e \<noteq> []" "p \<noteq> []"
    "db' = db\<lparr>users := users db @ [\<lparr>user_name = n, user_email = e, user_password = p\<rparr>]\<rparr>"
    by (rule post_register_201)
  let ?u = "\<lparr>user_name = n, user_email = e, user_password = p\<rparr>"
  let ?tok = "jwt_sign enc e (SECRET_KEY S) one_hour now"
  have "?u \<in> set (users db')"
    using *(7) by simp
  then have "post_login enc other S now (Some (JString e)) (Some (JString p)) db' =
      respond 200 (JObject [(''token'', JString ?tok)])"
    using *(5,6) by (intro post_login_found [where u = ?u]) simp_all
  moreover have "jwt_verify dec (Some ?tok) (SECRET_KEY S) now' =
      Inr \<lparr>jwt_email = e, jwt_iat = now, jwt_exp = now + one_hour\<rparr>"
    using assms(4) by (simp add: jwt_verify_sign [OF assms(1)])
  ultimately show ?thesis
    using *(2,3) by blast
qed

theorem register_login_verify_roundtrip_witness:
  "\<exists>e p tok. Some ''a@x.com'' = Some e \<and> Some ''pw1'' = Some p \<and>
     post_login example_enc refuse_other None 5 (Some (JString e)) (Some (JString p))
       \<lparr>users = [\<lparr>user_name = ''Ann'', user_email = ''a@x.com'', user_password = ''pw1''\<rparr>],
        products = []\<rparr> =
       respond 200 (JObject [(''token'', JString tok)]) \<and>
     jwt_verify example_dec (Some tok) (SECRET_KEY None) 3604 =
       Inr \<lparr>jwt_email = e, jwt_iat = 5, jwt_exp = 5 + one_hour\<rparr>"
proof (rule register_login_verify_roundtrip [OF example_codec])
  show "post_register (Some ''Ann'') (Some ''a@x.com'') (Some ''pw1'') \<lparr>users = [], products = []\<rparr> =
      (respond 201 (message ''User registered successfully''),
       \<lparr>users = [\<lparr>user_name = ''Ann'', user_email = ''a@x.com'', user_password = ''pw1''\<rparr>],
        products = []\<rparr>)"
    by (simp add: post_register_def post_register_interleaved_def User_findOne_email_def
        User_save_def)
  show "status (respond 201 (message ''User registered successfully'')) = 201"
    by simp
  show "(3604::nat) < 5 + one_hour"
    by (simp add: one_hour_def)
qed

subsection \<open>Failed logins\<close>

text \<open>
  Claim C3. On every store, a login with a stored email and a password that no record
  under that email has, and a login with an email that no record has, get the same
  response: 401 with the message \<^verbatim>\<open>Invalid email or password\<close>. The emails and passwords
  are present, that is non-empty, as the login operation requires. More generally the two
  logins get the same response for every string in the password field, also an empty or a
  missing one. And for every JSON value in the password field, a login under the stored
  email that is not answered 200 gets the response of the login under the unknown email.
\<close>

theorem login_failures_indistinguishable:
  assumes "e1 \<noteq> []" "e2 \<noteq> []"
    and "u \<in> set (users db)" "user_email u = e1"
    and "\<forall>v\<in>set (users db). user_email v \<noteq> e2"
  shows "(p1 \<noteq> [] \<and> p2 \<noteq> [] \<and> (\<forall>v\<in>set (users db). user_email v = e1 \<longrightarrow> user_password v \<noteq> p1) \<longrightarrow>
            post_login enc other S now (Some (JString e1)) (Some (JString p1)) db =
              respond 401 (message ''Invalid email or password'') \<and>
            post_login enc other S now (Some (JString e2)) (Some (JString p2)) db =
              respond 401 (message ''Invalid email or password'')) \<and>
         ((\<forall>v\<in>set (users db). user_email v = e1 \<longrightarrow> Some (user_password v) \<noteq> pw) \<longrightarrow>
            post_login enc other S now (Some (JString e1)) (map_option JString pw) db =
            post_login enc other S now (Some (JString e2)) (map_option JString pw) db) \<and>
         (status (post_login enc other S now (Some (JString e1)) jpw db) \<noteq> 200 \<longrightarrow>
            post_login enc other S now (Some (JString e1)) jpw db =
            post_login enc other S now (Some (JString e2)) jpw db)"
proof (intro conjI impI)
  assume a: "p1 \<noteq> [] \<and> p2 \<noteq> [] \<and>
    (\<forall>v\<in>set (users db). user_email v = e1 \<longrightarrow> user_password v \<noteq> p1)"
  then show "post_login enc other S now (Some (JString e1)) (Some (JString p1)) db =
      respond 401 (message ''Invalid email or password'')"
    using assms(1) by (intro post_login_not_found) auto
  from a show "post_login enc other S now (Some (JString e2)) (Some (JString p2)) db =
      respond 401 (message ''Invalid email or password'')"
    using assms(2,5) by (intro post_login_not_found) auto
next
  assume b: "\<forall>v\<in>set (users db). user_email v = e1 \<longrightarrow> Some (user_password v) \<noteq> pw"
  show "post_login enc other S now (Some (JString e1)) (map_option JString pw) db =
      post_login enc other S now (Some (JString e2)) (map_option JString pw) db"
  proof (cases "falsy (map_option JString pw)")
    case True
    then show ?thesis
      by (simp add: post_login_falsy)
  next
    case False
    then obtain p where p: "pw = Some p" "p \<noteq> []"
      by (cases pw) (auto simp: falsy_def)
    have "post_login enc other S now (Some (JString e1)) (Some (JString p)) db =
        respond 401 (message ''Invalid email or password'')"
      using assms(1) p b by (intro post_login_not_found) auto
    moreover have "post_login enc other S now (Some (JString e2)) (Some (JString p)) db =
        respond 401 (message ''Invalid email or password'')"
      using assms(2,5) p by (intro post_login_not_found) auto
    ultimately show ?thesis
      using p(1) by simp
  qed
next
  assume "status (post_login enc other S now (Some (JString e1)) jpw db) \<noteq> 200"
  with assms(1,2,5) show "post_login enc other S now (Some (JString e1)) jpw db =
      post_login enc other S now (Some (JString e2)) jpw db"
    by (rule post_login_failure_same)
qed

theorem login_failures_indistinguishable_witness:
  "post_login example_enc refuse_other None 5 (Some (JString ''a@x.com'')) (Some (JString ''guess''))
     \<lparr>users = [\<lparr>user_name = ''Ann'', user_email = ''a@x.com'', user_password = ''pw1''\<rparr>],
      products = []\<rparr> = respond 401 (message ''Invalid email or password'') \<and>
   post_login example_enc refuse_other None 5 (Some (JString ''nobody@x.com'')) (Some (JString ''pw1''))
     \<lparr>users = [\<lparr>user_name = ''Ann'', user_email = ''a@x.com'', user_password = ''pw1''\<rparr>],
      products = []\<rparr> = respond 401 (message ''Invalid email or password'')"
proof -
  let ?ann = "\<lparr>user_name = ''Ann'', user_email = ''a@x.com'', user_password = ''pw1''\<rparr>"
  let ?db = "\<lparr>users = [?ann], products = []\<rparr>"
  have 1: "''a@x.com'' \<noteq> []" and 2: "''nobody@x.com'' \<noteq> []"
    by simp_all
  have 3: "?ann \<in> set (users ?db)" and 4: "user_email ?ann = ''a@x.com''"
    by simp_all
  have 5: "\<forall>v\<in>set (users ?db). user_email v \<noteq> ''nobody@x.com''"
    by simp
  have 6: "''guess'' \<noteq> [] \<and> ''pw1'' \<noteq> [] \<and>
      (\<forall>v\<in>set (users ?db). user_email v = ''a@x.com'' \<longrightarrow> user_password v \<noteq> ''guess'')"
    by simp
  from login_failures_indistinguishable [OF 1 2 3 4 5, of "''guess''" "''pw1''"] 6
  show ?thesis by blast
qed

subsection \<open>One registration per email\<close>

text \<open>
  Claim C4. Take a non-empty email \<open>e\<close>. On a store with no record under \<open>e\<close>, a register
  request with non-empty name and password is answered 201 and the store gains one record
  with the three fields as supplied; a further register request with the email \<open>e\<close> on the
  store it left is answered 400 \<^verbatim>\<open>User already exists\<close>, whatever its name and password. On
  a store with a record under \<open>e\<close>, a register request with the email \<open>e\<close> is answered 400
  and leaves the store as it is, whatever the other two fields are; when the two are
  supplied, the response is the 400 \<^verbatim>\<open>User already exists\<close>.
\<close>

theorem register_once_per_email:
  assumes "e \<noteq> []"
  shows "(n \<noteq> [] \<and> p \<noteq> [] \<and> (\<forall>u\<in>set (users db). user_email u \<noteq> e) \<longrightarrow>
            post_register (Some n) (Some e) (Some p) db =
              (respond 201 (message ''User registered successfully''),
               db\<lparr>users := users db @ [\<lparr>user_name = n, user_email = e, user_password = p\<rparr>]\<rparr>) \<and>
            (n2 \<noteq> [] \<and> p2 \<noteq> [] \<longrightarrow>
               post_register (Some n2) (Some e) (Some p2)
                 (snd (post_register (Some n) (Some e) (Some p) db)) =
               (respond 400 (message ''User already exists''),
                snd (post_register (Some n) (Some e) (Some p) db)))) \<and>
         ((\<exists>u\<in>set (users db). user_email u = e) \<longrightarrow>
            status (fst (post_register name (Some e) password db)) = 400 \<and>
            snd (post_register name (Some e) password db) = db \<and>
            (\<not> falsy_string name \<and> \<not> falsy_string password \<longrightarrow>
               post_register name (Some e) password db =
                 (respond 400 (message ''User already exists''), db)))"
proof (intro conjI impI)
  assume a: "n \<noteq> [] \<and> p \<noteq> [] \<and> (\<forall>u\<in>set (users db). user_email u \<noteq> e)"
  let ?new = "\<lparr>user_name = n, user_email = e, user_password = p\<rparr>"
  show first: "post_register (Some n) (Some e) (Some p) db =
      (respond 201 (message ''User registered successfully''), db\<lparr>users := users db @ [?new]\<rparr>)"
    using a assms by (intro post_register_fresh) auto
  assume b: "n2 \<noteq> [] \<and> p2 \<noteq> []"
  have "?new \<in> set (users (db\<lparr>users := users db @ [?new]\<rparr>))" "user_email ?new = e"
    by simp_all
  with b assms have "post_register (Some n2) (Some e) (Some p2) (db\<lparr>users := users db @ [?new]\<rparr>) =
      (respond 400 (message ''User already exists''), db\<lparr>users := users db @ [?new]\<rparr>)"
    unfolding post_register_def
    by (intro post_register_existing [where u = ?new]) auto
  then show "post_register (Some n2) (Some e) (Some p2)
        (snd (post_register (Some n) (Some e) (Some p) db)) =
      (respond 400 (message ''User already exists''),
       snd (post_register (Some n) (Some e) (Some p) db))"
    by (simp only: first snd_conv)
next
  assume "\<exists>u\<in>set (users db). user_email u = e"
  then obtain u where u: "u \<in> set (users db)" "user_email u = e"
    by blast
  have supplied: "post_register name (Some e) password db =
      (respond 400 (message ''User already exists''), db)"
    if "\<not> falsy_string name \<and> \<not> falsy_string password"
  proof -
    from that obtain n' p' where "name = Some n'" "password = Some p'" "n' \<noteq> []" "p' \<noteq> []"
      by (auto simp: falsy_string_def split: option.splits)
    with assms u show ?thesis
      by (simp add: post_register_def post_register_existing)
  qed
  have missing: "post_register name (Some e) password db =
      (respond 400 (message ''Name, email, and password are required''), db)"
    if "\<not> (\<not> falsy_string name \<and> \<not> falsy_string password)"
    using that by (auto simp: post_register_def post_register_falsy)
  show "status (fst (post_register name (Some e) password db)) = 400"
    using supplied missing by (cases "\<not> falsy_string name \<and> \<not> falsy_string password") simp_all
  show "snd (post_register name (Some e) password db) = db"
    using supplied missing by (cases "\<not> falsy_string name \<and> \<not> falsy_string password") simp_all
  assume "\<not> falsy_string name \<and> \<not> falsy_string password"
  then show "post_register name (Some e) password db =
      (respond 400 (message ''User already exists''), db)"
    by (rule supplied)
qed

theorem register_once_per_email_witness:
  "post_register (Some ''Ann'') (Some ''a@x.com'') (Some ''pw1'') \<lparr>users = [], products = []\<rparr> =
     (respond 201 (message ''User registered successfully''),
      \<lparr>users = [\<lparr>user_name = ''Ann'', user_email = ''a@x.com'', user_password = ''pw1''\<rparr>],
       products = []\<rparr>) \<and>
   post_register (Some ''Bob'') (Some ''a@x.com'') (Some ''pw2'')
     \<lparr>users = [\<lparr>user_name = ''Ann'', user_email = ''a@x.com'', user_password = ''pw1''\<rparr>],
      products = []\<rparr> =
     (respond 400 (message ''User already exists''),
      \<lparr>users = [\<lparr>user_name = ''Ann'', user_email = ''a@x.com'', user_password = ''pw1''\<rparr>],
       products = []\<rparr>)"
proof -
  let ?ann = "\<lparr>user_name = ''Ann'', user_email = ''a@x.com'', user_password = ''pw1''\<rparr>"
  let ?db0 = "\<lparr>users = [], products = []\<rparr>"
  let ?db1 = "\<lparr>users = [?ann], products = []\<rparr>"
  have e: "''a@x.com'' \<noteq> []"
    by simp
  have fresh: "''Ann'' \<noteq> [] \<and> ''pw1'' \<noteq> [] \<and> (\<forall>u\<in>set (users ?db0). user_email u \<noteq> ''a@x.com'')"
    by simp
  have taken: "\<exists>u\<in>set (users ?db1). user_email u = ''a@x.com''"
    by simp
  have supplied: "\<not> falsy_string (Some ''Bob'') \<and> \<not> falsy_string (Some ''pw2'')"
    by (simp add: falsy_string_def)
  from register_once_per_email [OF e, of "''Ann''" "''pw1''" ?db0] fresh
  have "post_register (Some ''Ann'') (Some ''a@x.com'') (Some ''pw1'') ?db0 =
      (respond 201 (message ''User registered successfully''),
       ?db0\<lparr>users := users ?db0 @ [?ann]\<rparr>)"
    by blast
  moreover
  from register_once_per_email [OF e, of _ _ ?db1 _ _ "Some ''Bob''" "Some ''pw2''"] taken supplied
  have "post_register (Some ''Bob'') (Some ''a@x.com'') (Some ''pw2'') ?db1 =
      (respond 400 (message ''User already exists''), ?db1)"
    by blast
  ultimately show ?thesis
    by simp
qed

subsection \<open>Login is one conjunctive lookup\<close>




subsection \<open>The two rejections of the guard\<close>

text \<open>
  Claim C6. On a protected route, a request without the \<^verbatim>\<open>Authorization\<close> header is answered
  401 \<^verbatim>\<open>Token required\<close>; the test of the source is \<^verbatim>\<open>!authHeader\<close>, so a header that is the
  empty string is answered as a missing one. A request with a non-empty header whose
  token fails verification is answered 403 \<^verbatim>\<open>Invalid token\<close>. The two responses differ in
  status and in message. In both cases the response and the store do not depend on the
  handler of the route: the handler does not run.
\<close>

theorem guard_rejections:
  "protected dec S now handler None db = (respond 401 (message ''Token required''), db) \<and>
   (falsy_string authHeader \<longrightarrow>
      protected dec S now handler authHeader db = (respond 401 (message ''Token required''), db)) \<and>
   (authHeader = Some h \<and> h \<noteq> [] \<and>
    jwt_verify dec (index (split (CHR '' '') h) 1) (SECRET_KEY S) now = Inl err \<longrightarrow>
      protected dec S now handler authHeader db = (respond 403 (message ''Invalid token''), db)) \<and>
   status (respond 401 (message ''Token required'')) \<noteq>
     status (respond 403 (message ''Invalid token'')) \<and>
   body (respond 401 (message ''Token required'')) \<noteq>
     body (respond 403 (message ''Invalid token''))"
proof (intro conjI impI)
  show "protected dec S now handler None db = (respond 401 (message ''Token required''), db)"
    by (simp add: protected_def authenticateToken_def)
  show "protected dec S now handler authHeader db = (respond 401 (message ''Token required''), db)"
    if "falsy_string authHeader"
    using that by (simp add: protected_def authenticateToken_missing)
  show "protected dec S now handler authHeader db = (respond 403 (message ''Invalid token''), db)"
    if "authHeader = Some h \<and> h \<noteq> [] \<and>
      jwt_verify dec (index (split (CHR '' '') h) 1) (SECRET_KEY S) now = Inl err"
    using that by (simp add: protected_def authenticateToken_present)
  show "status (respond 401 (message ''Token required'')) \<noteq>
      status (respond 403 (message ''Invalid token''))"
    by simp
  show "body (respond 401 (message ''Token required'')) \<noteq>
      body (respond 403 (message ''Invalid token''))"
    by simp
qed

theorem guard_rejections_witness:
  "protected example_dec (Some ''k'') 1 get_products None \<lparr>users = [], products = []\<rparr> =
     (respond 401 (message ''Token required''), \<lparr>users = [], products = []\<rparr>) \<and>
   protected example_dec (Some ''k'') 1 get_products (Some ''Bearer abc'')
     \<lparr>users = [], products = []\<rparr> =
     (respond 403 (message ''Invalid token''), \<lparr>users = [], products = []\<rparr>)"
proof -
  have absent: "falsy_string None"
    by (simp add: falsy_string_def)
  have bad: "Some ''Bearer abc'' = Some ''Bearer abc'' \<and> ''Bearer abc'' \<noteq> [] \<and>
      jwt_verify example_dec (index (split (CHR '' '') ''Bearer abc'') 1)
        (SECRET_KEY (Some ''k'')) 1 = Inl JsonWebTokenError"
    by (simp add: jwt_verify_def index_def example_dec_def)
  from guard_rejections [of example_dec "Some ''k''" 1 get_products
      "\<lparr>users = [], products = []\<rparr>" None] absent
  have "protected example_dec (Some ''k'') 1 get_products None \<lparr>users = [], products = []\<rparr> =
      (respond 401 (message ''Token required''), \<lparr>users = [], products = []\<rparr>)"
    by blast
  moreover
  from guard_rejections [of example_dec "Some ''k''" 1 get_products
      "\<lparr>users = [], products = []\<rparr>" "Some ''Bearer abc''" "''Bearer abc''" JsonWebTokenError] bad
  have "protected example_dec (Some ''k'') 1 get_products (Some ''Bearer abc'')
      \<lparr>users = [], products = []\<rparr> =
      (respond 403 (message ''Invalid token''), \<lparr>users = [], products = []\<rparr>)"
    by blast
  ultimately show ?thesis
    by (rule conjI)
qed

subsection \<open>Expiry of an issued token\<close>

text \<open>
  Claim C7. A token that the login handler returned at clock time \<open>now\<close> decodes to claims
  signed with the server's key whose expiry is \<open>now\<close> plus one hour. At every clock time at
  or past that expiry, verification of the token under the server's key fails, and the
  guard answers 403 to every header that carries the token as its second part. The
  serialisation of tokens is any codec.
\<close>

theorem issued_token_expires_after_one_hour:
  assumes "codec enc dec"
    and "post_login enc other S now email password db =
           respond 200 (JObject [(''token'', JString tok)])"
    and "now + one_hour \<le> now'"
  shows "(\<exists>payload. dec tok = Some (Signed payload (SECRET_KEY S)) \<and>
            jwt_exp payload = now + one_hour) \<and>
         jwt_verify dec (Some tok) (SECRET_KEY S) now' = Inl TokenExpiredError \<and>
         (index (split (CHR '' '') h) 1 = Some tok \<longrightarrow>
            authenticateToken dec S now' (Some h) = Inl (respond 403 (message ''Invalid token'')))"
proof -
  from assms(2) obtain e where tok: "tok = jwt_sign enc e (SECRET_KEY S) one_hour now"
    by (rule post_login_token)
  have signed: "dec tok =
      Some (Signed \<lparr>jwt_email = e, jwt_iat = now, jwt_exp = now + one_hour\<rparr> (SECRET_KEY S))"
    using assms(1) by (simp add: tok jwt_sign_def codec_def)
  have expired: "jwt_verify dec (Some tok) (SECRET_KEY S) now' = Inl TokenExpiredError"
    using assms(3) by (simp add: tok jwt_verify_sign [OF assms(1)])
  have "authenticateToken dec S now' (Some h) = Inl (respond 403 (message ''Invalid token''))"
    if "index (split (CHR '' '') h) 1 = Some tok"
  proof -
    have "h \<noteq> []"
      using that by (auto simp: index_def)
    with that expired show ?thesis
      by (simp add: authenticateToken_present)
  qed
  with signed expired show ?thesis
    by simp
qed

theorem issued_token_expires_after_one_hour_witness:
  "jwt_verify example_dec
     (Some (jwt_sign example_enc ''a@x.com'' (SECRET_KEY None) one_hour 5))
     (SECRET_KEY None) (5 + one_hour) = Inl TokenExpiredError"
proof -
  have login: "post_login example_enc refuse_other None 5
      (Some (JString ''a@x.com'')) (Some (JString ''pw1''))
      \<lparr>users = [\<lparr>user_name = ''Ann'', user_email = ''a@x.com'', user_password = ''pw1''\<rparr>],
       products = []\<rparr> =
      respond 200 (JObject [(''token'',
        JString (jwt_sign example_enc ''a@x.com'' (SECRET_KEY None) one_hour 5))])"
    by (simp add: post_login_def User_findOne_email_password_def)
  have late: "5 + one_hour \<le> 5 + one_hour"
    by simp
  from issued_token_expires_after_one_hour [OF example_codec login late] show ?thesis
    by blast
qed

subsection \<open>The user list without passwords\<close>

text \<open>
  Claim C8. An authenticated \<^verbatim>\<open>GET /users\<close> is answered 200 with one JSON object for every
  stored user record, in the order of the store, and leaves the store as it is. Each
  object carries the name and the email of its record and has no \<^verbatim>\<open>password\<close> field. The
  passwords do not reach the response in any other way either: a store with the same names
  and emails gets the same response, whatever its passwords are.
\<close>

theorem get_users_omits_password:
  assumes "authenticateToken dec S now authHeader = Inr user"
  shows "\<exists>rs. protected dec S now get_users authHeader db = (respond 200 (JArray rs), db) \<and>
           length rs = length (users db) \<and>
           (\<forall>i<length rs.
              field ''name'' (rs ! i) = Some (JString (user_name (users db ! i))) \<and>
              field ''email'' (rs ! i) = Some (JString (user_email (users db ! i))) \<and>
              \<not> has_field ''password'' (rs ! i)) \<and>
           (\<forall>db2. map user_name (users db2) = map user_name (users db) \<and>
                  map user_email (users db2) = map user_email (users db) \<longrightarrow>
                  fst (protected dec S now get_users authHeader db2) = respond 200 (JArray rs))"
proof -
  let ?rows = "\<lambda>d::store. map (select_without ''password'' \<circ> user_json) (users d)"
  have run: "protected dec S now get_users authHeader d = (respond 200 (JArray (?rows d)), d)"
    for d
    using assms by (simp add: protected_def get_users_def)
  have len: "length (?rows db) = length (users db)"
    by simp
  have row: "\<forall>i<length (?rows db).
      field ''name'' (?rows db ! i) = Some (JString (user_name (users db ! i))) \<and>
      field ''email'' (?rows db ! i) = Some (JString (user_email (users db ! i))) \<and>
      \<not> has_field ''password'' (?rows db ! i)"
    using get_users_row [of _ "users db"] by (simp only: len) blast
  have same: "\<forall>db2. map user_name (users db2) = map user_name (users db) \<and>
      map user_email (users db2) = map user_email (users db) \<longrightarrow>
      fst (protected dec S now get_users authHeader db2) = respond 200 (JArray (?rows db))"
  proof (intro allI impI)
    fix db2 :: store
    assume "map user_name (users db2) = map user_name (users db) \<and>
      map user_email (users db2) = map user_email (users db)"
    then have "?rows db2 = ?rows db"
      by (simp only: get_users_rows)
    then show "fst (protected dec S now get_users authHeader db2) =
        respond 200 (JArray (?rows db))"
      by (simp only: run fst_conv)
  qed
  from run [of db] len row same show ?thesis
    by (intro exI [of _ "?rows db"] conjI)
qed

theorem get_users_omits_password_witness:
  "\<exists>rs. protected example_dec (Some ''k'') 1 get_users (Some ''Bearer .11.1.a1.k'')
       \<lparr>users = [\<lparr>user_name = ''Ann'', user_email = ''a@x.com'', user_password = ''pw1''\<rparr>],
        products = []\<rparr> =
       (respond 200 (JArray rs),
        \<lparr>users = [\<lparr>user_name = ''Ann'', user_email = ''a@x.com'', user_password = ''pw1''\<rparr>],
         products = []\<rparr>) \<and>
     length rs = 1 \<and>
     field ''name'' (rs ! 0) = Some (JString ''Ann'') \<and>
     field ''email'' (rs ! 0) = Some (JString ''a@x.com'') \<and>
     \<not> has_field ''password'' (rs ! 0)"
proof -
  let ?db = "\<lparr>users = [\<lparr>user_name = ''Ann'', user_email = ''a@x.com'', user_password = ''pw1''\<rparr>],
              products = []\<rparr>"
  have auth: "authenticateToken example_dec (Some ''k'') 1 (Some ''Bearer .11.1.a1.k'') =
      Inr \<lparr>jwt_email = ''a'', jwt_iat = 0, jwt_exp = 2\<rparr>"
    by (simp add: authenticateToken_def jwt_verify_def index_def example_dec_def dec_string_def
        SECRET_KEY_def)
  from get_users_omits_password [OF auth, of ?db] obtain rs where
    run: "protected example_dec (Some ''k'') 1 get_users (Some ''Bearer .11.1.a1.k'') ?db =
      (respond 200 (JArray rs), ?db)"
    and len: "length rs = length (users ?db)"
    and row: "\<forall>i<length rs.
      field ''name'' (rs ! i) = Some (JString (user_name (users ?db ! i))) \<and>
      field ''email'' (rs ! i) = Some (JString (user_email (users ?db ! i))) \<and>
      \<not> has_field ''password'' (rs ! i)"
    by blast
  from len have one: "length rs = 1"
    by simp
  with row have "field ''name'' (rs ! 0) = Some (JString ''Ann'') \<and>
      field ''email'' (rs ! 0) = Some (JString ''a@x.com'') \<and>
      \<not> has_field ''password'' (rs ! 0)"
    by simp
  with run one show ?thesis
    by blast
qed

subsection \<open>A product with price zero\<close>

text \<open>
  Claim C9. An authenticated \<^verbatim>\<open>POST /product\<close> whose body carries a name and the price 0 is
  answered 400 \<^verbatim>\<open>Product name and price are required\<close> and stores no product: the number 0
  is falsy, and the presence check \<^verbatim>\<open>!price\<close> takes it for a missing field.
\<close>

theorem post_product_rejects_zero_price:
  assumes "authenticateToken dec S now authHeader = Inr user"
  shows "falsy_number (Some 0) \<and>
         protected dec S now (post_product (Some n) (Some 0)) authHeader db =
           (respond 400 (message ''Product name and price are required''), db)"
proof -
  have zero: "falsy_number (Some 0)"
    by (simp add: falsy_number_def)
  then have "post_product (Some n) (Some 0) user db =
      (respond 400 (message ''Product name and price are required''), db)"
    by (intro post_product_falsy) simp
  with assms zero show ?thesis
    by (simp add: protected_def)
qed

theorem post_product_rejects_zero_price_witness:
  "falsy_number (Some 0) \<and>
   protected example_dec (Some ''k'') 1 (post_product (Some ''pen'') (Some 0))
     (Some ''Bearer .11.1.a1.k'') \<lparr>users = [], products = []\<rparr> =
   (respond 400 (message ''Product name and price are required''),
    \<lparr>users = [], products = []\<rparr>)"
proof (rule post_product_rejects_zero_price)
  show "authenticateToken example_dec (Some ''k'') 1 (Some ''Bearer .11.1.a1.k'') =
      Inr \<lparr>jwt_email = ''a'', jwt_iat = 0, jwt_exp = 2\<rparr>"
    by (simp add: authenticateToken_def jwt_verify_def index_def example_dec_def dec_string_def
        SECRET_KEY_def)
qed

subsection \<open>The scheme word of the header\<close>

text \<open>
  Claim C10. The guard does not look at the first word of the header. For a header of the
  form \<^verbatim>\<open>scheme token\<close>, with no space inside either part, whose token verifies, the guard
  passes the verified claims on to the handler whatever the scheme word is, and so the
  outcome is the one of the header \<^verbatim>\<open>Bearer token\<close>.
\<close>

theorem guard_ignores_scheme:
  assumes "CHR '' '' \<notin> set scheme" "CHR '' '' \<notin> set tok"
    and "jwt_verify dec (Some tok) (SECRET_KEY S) now = Inr user"
  shows "authenticateToken dec S now (Some (scheme @ CHR '' '' # tok)) = Inr user \<and>
         authenticateToken dec S now (Some (scheme @ CHR '' '' # tok)) =
           authenticateToken dec S now (Some (''Bearer'' @ CHR '' '' # tok)) \<and>
         protected dec S now handler (Some (scheme @ CHR '' '' # tok)) db = handler user db"
proof -
  have pass: "authenticateToken dec S now (Some (w @ CHR '' '' # tok)) = Inr user"
    if "CHR '' '' \<notin> set w" for w
  proof -
    have "authenticateToken dec S now (Some (w @ CHR '' '' # tok)) =
        (case jwt_verify dec (index (split (CHR '' '') (w @ CHR '' '' # tok)) 1)
                (SECRET_KEY S) now of
           Inl err \<Rightarrow> Inl (respond 403 (message ''Invalid token''))
         | Inr user \<Rightarrow> Inr user)"
      by (rule authenticateToken_present) simp_all
    then show ?thesis
      by (simp only: token_of_scheme [OF that assms(2)] assms(3) sum.case)
  qed
  from pass [of scheme] pass [of "''Bearer''"] assms(1) show ?thesis
    by (simp add: protected_def)
qed

theorem guard_ignores_scheme_witness:
  "authenticateToken example_dec (Some ''k'') 1 (Some ''Basic .11.1.a1.k'') =
     Inr \<lparr>jwt_email = ''a'', jwt_iat = 0, jwt_exp = 2\<rparr> \<and>
   authenticateToken example_dec (Some ''k'') 1 (Some ''Basic .11.1.a1.k'') =
     authenticateToken example_dec (Some ''k'') 1 (Some ''Bearer .11.1.a1.k'')"
proof -
  have scheme: "CHR '' '' \<notin> set ''Basic''" and tok: "CHR '' '' \<notin> set ''.11.1.a1.k''"
    by simp_all
  have valid: "jwt_verify example_dec (Some ''.11.1.a1.k'') (SECRET_KEY (Some ''k'')) 1 =
      Inr \<lparr>jwt_email = ''a'', jwt_iat = 0, jwt_exp = 2\<rparr>"
    by (simp add: jwt_verify_def example_dec_def dec_string_def SECRET_KEY_def)
  have lit: "''Basic'' @ CHR '' '' # ''.11.1.a1.k'' = ''Basic .11.1.a1.k''"
    "''Bearer'' @ CHR '' '' # ''.11.1.a1.k'' = ''Bearer .11.1.a1.k''"
    by simp_all
  from guard_ignores_scheme [OF scheme tok valid, of get_products "\<lparr>users = [], products = []\<rparr>"]
  have "authenticateToken example_dec (Some ''k'') 1 (Some (''Basic'' @ CHR '' '' # ''.11.1.a1.k'')) =
      Inr \<lparr>jwt_email = ''a'', jwt_iat = 0, jwt_exp = 2\<rparr> \<and>
    authenticateToken example_dec (Some ''k'') 1 (Some (''Basic'' @ CHR '' '' # ''.11.1.a1.k'')) =
      authenticateToken example_dec (Some ''k'') 1 (Some (''Bearer'' @ CHR '' '' # ''.11.1.a1.k''))"
    by blast
  then show ?thesis
    unfolding lit .
qed

end
